theory Spec2Isabelle
  imports Main
begin

section \<open>TwangyBot: a greeting bot on a chat platform\<close>

text \<open>
  The program is one script, \<^verbatim>\<open>main.py\<close>. It builds a messaging client and a
  language-understanding client, declares two event callbacks (\<^verbatim>\<open>on_message\<close>,
  \<^verbatim>\<open>on_ready\<close>) and starts the messaging client's run loop.

  The callbacks are embedded as functions that pass the outside world along explicitly:
  what has been handed to the messaging client for sending, what has been written to
  standard output, and what has been asked of the language-understanding service.
  The script's top level is embedded as a sequence of statements over a namespace, where
  loading an unbound name is an error value.
\<close>

subsection \<open>Data\<close>

text \<open>
  A Python \<^verbatim>\<open>str\<close> is a sequence of Unicode code points. \<open>str\<close> reads a literal of
  the script, whose characters are all ASCII.
\<close>

type_synonym codepoint = nat

type_synonym pystr = "codepoint list"

definition str :: "string \<Rightarrow> pystr" where
  "str s = map of_char s"

text \<open>
  A user object of the client library, with the three attributes the script reads:
  \<^verbatim>\<open>id\<close> (a string in the library version that offers \<^verbatim>\<open>send_message\<close>),
  \<^verbatim>\<open>name\<close> and \<^verbatim>\<open>mention\<close>.
\<close>

record user =
  user_id :: pystr
  name :: pystr
  mention :: pystr

datatype channel = Channel string

record message =
  author :: user
  content :: pystr
  channel :: channel

record client =
  user :: user

datatype wit = Wit string

text \<open>
  The module-level variables the callbacks read. \<open>wit_client\<close> is optional so that a
  program without the language-understanding client can be compared with the script,
  which always builds one.
\<close>

record globals =
  discord_client :: client
  wit_client :: "wit option"

record world =
  outbox :: "(channel \<times> pystr) list"
  stdout :: pystr
  wit_requests :: "pystr list"

subsection \<open>Library operations the callbacks use\<close>

text \<open>
  Modelled from the spec: the comparison \<^verbatim>\<open>message.author == discord_client.user\<close> is
  the client library's comparison of user objects, which is not part of this repository.
  The spec calls it a test for "the bot's own identity" and names the identifier "unique",
  so two user objects are the same identity exactly when their identifiers agree.
\<close>

definition user_eq :: "user \<Rightarrow> user \<Rightarrow> bool" where
  "user_eq a b = (user_id a = user_id b)"

text \<open>\<^verbatim>\<open>str.startswith\<close> with one prefix argument.\<close>

definition startswith :: "'a list \<Rightarrow> 'a list \<Rightarrow> bool" where
  "startswith s p = (take (length p) s = p)"

text \<open>
  \<^verbatim>\<open>discord_client.send_message(channel, msg)\<close>: one request to send \<open>msg\<close> to
  \<open>channel\<close> is handed to the messaging client. The first argument is the receiver.
\<close>

definition send_message :: "client \<Rightarrow> channel \<Rightarrow> pystr \<Rightarrow> world \<Rightarrow> world" where
  "send_message c ch msg w = w\<lparr>outbox := outbox w @ [(ch, msg)]\<rparr>"

text \<open>\<^verbatim>\<open>print(s)\<close>: the text and a line feed go to standard output.\<close>

definition print :: "pystr \<Rightarrow> world \<Rightarrow> world" where
  "print s w = w\<lparr>stdout := stdout w @ s @ [0x0A]\<rparr>"

subsection \<open>Letter case in Python strings\<close>

text \<open>
  \<^verbatim>\<open>str.lower\<close> and \<^verbatim>\<open>str.upper\<close> work code point by code point with the full
  case mappings of the Unicode character database, where one code point may map to
  several. The tables below are those of Unicode 14.0, the database of CPython 3.11.

  A run \<open>(lo, hi, step, target)\<close> maps the code points \<open>lo\<close>, \<open>lo + step\<close>, ... up to
  \<open>hi\<close> to \<open>target\<close>, \<open>target + step\<close>, ... in this order.
\<close>

fun find_run :: "(nat \<times> nat \<times> nat \<times> nat) list \<Rightarrow> codepoint \<Rightarrow> codepoint option" where
  "find_run [] x = None"
| "find_run ((lo, hi, step, target) # rs) x =
     (if lo \<le> x \<and> x \<le> hi \<and> (x - lo) mod step = 0 then Some (target + (x - lo))
      else find_run rs x)"

fun in_ranges :: "(nat \<times> nat) list \<Rightarrow> codepoint \<Rightarrow> bool" where
  "in_ranges [] x = False"
| "in_ranges ((lo, hi) # rs) x = ((lo \<le> x \<and> x \<le> hi) \<or> in_ranges rs x)"

text \<open>The code points whose lower-case mapping is one other code point.\<close>

definition lower_runs :: "(nat \<times> nat \<times> nat \<times> nat) list" where
  "lower_runs =
     [
      (0x41, 0x5A, 1, 0x61), (0xC0, 0xD6, 1, 0xE0), (0xD8, 0xDE, 1, 0xF8), (0x100, 0x12E, 2, 0x101),
      (0x132, 0x136, 2, 0x133), (0x139, 0x147, 2, 0x13A), (0x14A, 0x176, 2, 0x14B), (0x178, 0x178, 1, 0xFF),
      (0x179, 0x17D, 2, 0x17A), (0x181, 0x181, 1, 0x253), (0x182, 0x184, 2, 0x183), (0x186, 0x186, 1, 0x254),
      (0x187, 0x187, 1, 0x188), (0x189, 0x18A, 1, 0x256), (0x18B, 0x18B, 1, 0x18C), (0x18E, 0x18E, 1, 0x1DD),
      (0x18F, 0x18F, 1, 0x259), (0x190, 0x190, 1, 0x25B), (0x191, 0x191, 1, 0x192), (0x193, 0x193, 1, 0x260),
      (0x194, 0x194, 1, 0x263), (0x196, 0x196, 1, 0x269), (0x197, 0x197, 1, 0x268), (0x198, 0x198, 1, 0x199),
      (0x19C, 0x19C, 1, 0x26F), (0x19D, 0x19D, 1, 0x272), (0x19F, 0x19F, 1, 0x275), (0x1A0, 0x1A4, 2, 0x1A1),
      (0x1A6, 0x1A6, 1, 0x280), (0x1A7, 0x1A7, 1, 0x1A8), (0x1A9, 0x1A9, 1, 0x283), (0x1AC, 0x1AC, 1, 0x1AD),
      (0x1AE, 0x1AE, 1, 0x288), (0x1AF, 0x1AF, 1, 0x1B0), (0x1B1, 0x1B2, 1, 0x28A), (0x1B3, 0x1B5, 2, 0x1B4),
      (0x1B7, 0x1B7, 1, 0x292), (0x1B8, 0x1B8, 1, 0x1B9), (0x1BC, 0x1BC, 1, 0x1BD), (0x1C4, 0x1C4, 1, 0x1C6),
      (0x1C5, 0x1C5, 1, 0x1C6), (0x1C7, 0x1C7, 1, 0x1C9), (0x1C8, 0x1C8, 1, 0x1C9), (0x1CA, 0x1CA, 1, 0x1CC),
      (0x1CB, 0x1DB, 2, 0x1CC), (0x1DE, 0x1EE, 2, 0x1DF), (0x1F1, 0x1F1, 1, 0x1F3), (0x1F2, 0x1F4, 2, 0x1F3),
      (0x1F6, 0x1F6, 1, 0x195), (0x1F7, 0x1F7, 1, 0x1BF), (0x1F8, 0x21E, 2, 0x1F9), (0x220, 0x220, 1, 0x19E),
      (0x222, 0x232, 2, 0x223), (0x23A, 0x23A, 1, 0x2C65), (0x23B, 0x23B, 1, 0x23C), (0x23D, 0x23D, 1, 0x19A),
      (0x23E, 0x23E, 1, 0x2C66), (0x241, 0x241, 1, 0x242), (0x243, 0x243, 1, 0x180), (0x244, 0x244, 1, 0x289),
      (0x245, 0x245, 1, 0x28C), (0x246, 0x24E, 2, 0x247), (0x370, 0x372, 2, 0x371), (0x376, 0x376, 1, 0x377),
      (0x37F, 0x37F, 1, 0x3F3), (0x386, 0x386, 1, 0x3AC), (0x388, 0x38A, 1, 0x3AD), (0x38C, 0x38C, 1, 0x3CC),
      (0x38E, 0x38F, 1, 0x3CD), (0x391, 0x3A1, 1, 0x3B1), (0x3A3, 0x3AB, 1, 0x3C3), (0x3CF, 0x3CF, 1, 0x3D7),
      (0x3D8, 0x3EE, 2, 0x3D9), (0x3F4, 0x3F4, 1, 0x3B8), (0x3F7, 0x3F7, 1, 0x3F8), (0x3F9, 0x3F9, 1, 0x3F2),
      (0x3FA, 0x3FA, 1, 0x3FB), (0x3FD, 0x3FF, 1, 0x37B), (0x400, 0x40F, 1, 0x450), (0x410, 0x42F, 1, 0x430),
      (0x460, 0x480, 2, 0x461), (0x48A, 0x4BE, 2, 0x48B), (0x4C0, 0x4C0, 1, 0x4CF), (0x4C1, 0x4CD, 2, 0x4C2),
      (0x4D0, 0x52E, 2, 0x4D1), (0x531, 0x556, 1, 0x561), (0x10A0, 0x10C5, 1, 0x2D00), (0x10C7, 0x10C7, 1, 0x2D27),
      (0x10CD, 0x10CD, 1, 0x2D2D), (0x13A0, 0x13EF, 1, 0xAB70), (0x13F0, 0x13F5, 1, 0x13F8), (0x1C90, 0x1CBA, 1, 0x10D0),
      (0x1CBD, 0x1CBF, 1, 0x10FD), (0x1E00, 0x1E94, 2, 0x1E01), (0x1E9E, 0x1E9E, 1, 0xDF), (0x1EA0, 0x1EFE, 2, 0x1EA1),
      (0x1F08, 0x1F0F, 1, 0x1F00), (0x1F18, 0x1F1D, 1, 0x1F10), (0x1F28, 0x1F2F, 1, 0x1F20), (0x1F38, 0x1F3F, 1, 0x1F30),
      (0x1F48, 0x1F4D, 1, 0x1F40), (0x1F59, 0x1F5F, 2, 0x1F51), (0x1F68, 0x1F6F, 1, 0x1F60), (0x1F88, 0x1F8F, 1, 0x1F80),
      (0x1F98, 0x1F9F, 1, 0x1F90), (0x1FA8, 0x1FAF, 1, 0x1FA0), (0x1FB8, 0x1FB9, 1, 0x1FB0), (0x1FBA, 0x1FBB, 1, 0x1F70),
      (0x1FBC, 0x1FBC, 1, 0x1FB3), (0x1FC8, 0x1FCB, 1, 0x1F72), (0x1FCC, 0x1FCC, 1, 0x1FC3), (0x1FD8, 0x1FD9, 1, 0x1FD0),
      (0x1FDA, 0x1FDB, 1, 0x1F76), (0x1FE8, 0x1FE9, 1, 0x1FE0), (0x1FEA, 0x1FEB, 1, 0x1F7A), (0x1FEC, 0x1FEC, 1, 0x1FE5),
      (0x1FF8, 0x1FF9, 1, 0x1F78), (0x1FFA, 0x1FFB, 1, 0x1F7C), (0x1FFC, 0x1FFC, 1, 0x1FF3), (0x2126, 0x2126, 1, 0x3C9),
      (0x212A, 0x212A, 1, 0x6B), (0x212B, 0x212B, 1, 0xE5), (0x2132, 0x2132, 1, 0x214E), (0x2160, 0x216F, 1, 0x2170),
      (0x2183, 0x2183, 1, 0x2184), (0x24B6, 0x24CF, 1, 0x24D0), (0x2C00, 0x2C2F, 1, 0x2C30), (0x2C60, 0x2C60, 1, 0x2C61),
      (0x2C62, 0x2C62, 1, 0x26B), (0x2C63, 0x2C63, 1, 0x1D7D), (0x2C64, 0x2C64, 1, 0x27D), (0x2C67, 0x2C6B, 2, 0x2C68),
      (0x2C6D, 0x2C6D, 1, 0x251), (0x2C6E, 0x2C6E, 1, 0x271), (0x2C6F, 0x2C6F, 1, 0x250), (0x2C70, 0x2C70, 1, 0x252),
      (0x2C72, 0x2C72, 1, 0x2C73), (0x2C75, 0x2C75, 1, 0x2C76), (0x2C7E, 0x2C7F, 1, 0x23F), (0x2C80, 0x2CE2, 2, 0x2C81),
      (0x2CEB, 0x2CED, 2, 0x2CEC), (0x2CF2, 0x2CF2, 1, 0x2CF3), (0xA640, 0xA66C, 2, 0xA641), (0xA680, 0xA69A, 2, 0xA681),
      (0xA722, 0xA72E, 2, 0xA723), (0xA732, 0xA76E, 2, 0xA733), (0xA779, 0xA77B, 2, 0xA77A), (0xA77D, 0xA77D, 1, 0x1D79),
      (0xA77E, 0xA786, 2, 0xA77F), (0xA78B, 0xA78B, 1, 0xA78C), (0xA78D, 0xA78D, 1, 0x265), (0xA790, 0xA792, 2, 0xA791),
      (0xA796, 0xA7A8, 2, 0xA797), (0xA7AA, 0xA7AA, 1, 0x266), (0xA7AB, 0xA7AB, 1, 0x25C), (0xA7AC, 0xA7AC, 1, 0x261),
      (0xA7AD, 0xA7AD, 1, 0x26C), (0xA7AE, 0xA7AE, 1, 0x26A), (0xA7B0, 0xA7B0, 1, 0x29E), (0xA7B1, 0xA7B1, 1, 0x287),
      (0xA7B2, 0xA7B2, 1, 0x29D), (0xA7B3, 0xA7B3, 1, 0xAB53), (0xA7B4, 0xA7C2, 2, 0xA7B5), (0xA7C4, 0xA7C4, 1, 0xA794),
      (0xA7C5, 0xA7C5, 1, 0x282), (0xA7C6, 0xA7C6, 1, 0x1D8E), (0xA7C7, 0xA7C9, 2, 0xA7C8), (0xA7D0, 0xA7D0, 1, 0xA7D1),
      (0xA7D6, 0xA7D8, 2, 0xA7D7), (0xA7F5, 0xA7F5, 1, 0xA7F6), (0xFF21, 0xFF3A, 1, 0xFF41), (0x10400, 0x10427, 1, 0x10428),
      (0x104B0, 0x104D3, 1, 0x104D8), (0x10570, 0x1057A, 1, 0x10597), (0x1057C, 0x1058A, 1, 0x105A3), (0x1058C, 0x10592, 1, 0x105B3),
      (0x10594, 0x10595, 1, 0x105BB), (0x10C80, 0x10CB2, 1, 0x10CC0), (0x118A0, 0x118BF, 1, 0x118C0), (0x16E40, 0x16E5F, 1, 0x16E60),
      (0x1E900, 0x1E921, 1, 0x1E922)
     ]"

text \<open>
  The full lower-case mapping of a code point. Only U+0130 (capital I with dot above)
  maps to more than one code point.
\<close>

definition to_lower_full :: "codepoint \<Rightarrow> pystr" where
  "to_lower_full x =
     (if x = 0x130 then [0x69, 0x307]
      else case find_run lower_runs x of Some y \<Rightarrow> [y] | None \<Rightarrow> [x])"




text \<open>The case-ignorable code points.\<close>

definition case_ignorable_ranges :: "(nat \<times> nat) list" where
  "case_ignorable_ranges =
     [
      (0x27, 0x27), (0x2E, 0x2E), (0x3A, 0x3A), (0x5E, 0x5E), (0x60, 0x60), (0xA8, 0xA8),
      (0xAD, 0xAD), (0xAF, 0xAF), (0xB4, 0xB4), (0xB7, 0xB8), (0x2B0, 0x36F), (0x374, 0x375),
      (0x37A, 0x37A), (0x384, 0x385), (0x387, 0x387), (0x483, 0x489), (0x559, 0x559), (0x55F, 0x55F),
      (0x591, 0x5BD), (0x5BF, 0x5BF), (0x5C1, 0x5C2), (0x5C4, 0x5C5), (0x5C7, 0x5C7), (0x5F4, 0x5F4),
      (0x600, 0x605), (0x610, 0x61A), (0x61C, 0x61C), (0x640, 0x640), (0x64B, 0x65F), (0x670, 0x670),
      (0x6D6, 0x6DD), (0x6DF, 0x6E8), (0x6EA, 0x6ED), (0x70F, 0x70F), (0x711, 0x711), (0x730, 0x74A),
      (0x7A6, 0x7B0), (0x7EB, 0x7F5), (0x7FA, 0x7FA), (0x7FD, 0x7FD), (0x816, 0x82D), (0x859, 0x85B),
      (0x888, 0x888), (0x890, 0x891), (0x898, 0x89F), (0x8C9, 0x902), (0x93A, 0x93A), (0x93C, 0x93C),
      (0x941, 0x948), (0x94D, 0x94D), (0x951, 0x957), (0x962, 0x963), (0x971, 0x971), (0x981, 0x981),
      (0x9BC, 0x9BC), (0x9C1, 0x9C4), (0x9CD, 0x9CD), (0x9E2, 0x9E3), (0x9FE, 0x9FE), (0xA01, 0xA02),
      (0xA3C, 0xA3C), (0xA41, 0xA42), (0xA47, 0xA48), (0xA4B, 0xA4D), (0xA51, 0xA51), (0xA70, 0xA71),
      (0xA75, 0xA75), (0xA81, 0xA82), (0xABC, 0xABC), (0xAC1, 0xAC5), (0xAC7, 0xAC8), (0xACD, 0xACD),
      (0xAE2, 0xAE3), (0xAFA, 0xAFF), (0xB01, 0xB01), (0xB3C, 0xB3C), (0xB3F, 0xB3F), (0xB41, 0xB44),
      (0xB4D, 0xB4D), (0xB55, 0xB56), (0xB62, 0xB63), (0xB82, 0xB82), (0xBC0, 0xBC0), (0xBCD, 0xBCD),
      (0xC00, 0xC00), (0xC04, 0xC04), (0xC3C, 0xC3C), (0xC3E, 0xC40), (0xC46, 0xC48), (0xC4A, 0xC4D),
      (0xC55, 0xC56), (0xC62, 0xC63), (0xC81, 0xC81), (0xCBC, 0xCBC), (0xCBF, 0xCBF), (0xCC6, 0xCC6),
      (0xCCC, 0xCCD), (0xCE2, 0xCE3), (0xD00, 0xD01), (0xD3B, 0xD3C), (0xD41, 0xD44), (0xD4D, 0xD4D),
      (0xD62, 0xD63), (0xD81, 0xD81), (0xDCA, 0xDCA), (0xDD2, 0xDD4), (0xDD6, 0xDD6), (0xE31, 0xE31),
      (0xE34, 0xE3A), (0xE46, 0xE4E), (0xEB1, 0xEB1), (0xEB4, 0xEBC), (0xEC6, 0xEC6), (0xEC8, 0xECD),
      (0xF18, 0xF19), (0xF35, 0xF35), (0xF37, 0xF37), (0xF39, 0xF39), (0xF71, 0xF7E), (0xF80, 0xF84),
      (0xF86, 0xF87), (0xF8D, 0xF97), (0xF99, 0xFBC), (0xFC6, 0xFC6), (0x102D, 0x1030), (0x1032, 0x1037),
      (0x1039, 0x103A), (0x103D, 0x103E), (0x1058, 0x1059), (0x105E, 0x1060), (0x1071, 0x1074), (0x1082, 0x1082),
      (0x1085, 0x1086), (0x108D, 0x108D), (0x109D, 0x109D), (0x10FC, 0x10FC), (0x135D, 0x135F), (0x1712, 0x1714),
      (0x1732, 0x1733), (0x1752, 0x1753), (0x1772, 0x1773), (0x17B4, 0x17B5), (0x17B7, 0x17BD), (0x17C6, 0x17C6),
      (0x17C9, 0x17D3), (0x17D7, 0x17D7), (0x17DD, 0x17DD), (0x180B, 0x180F), (0x1843, 0x1843), (0x1885, 0x1886),
      (0x18A9, 0x18A9), (0x1920, 0x1922), (0x1927, 0x1928), (0x1932, 0x1932), (0x1939, 0x193B), (0x1A17, 0x1A18),
      (0x1A1B, 0x1A1B), (0x1A56, 0x1A56), (0x1A58, 0x1A5E), (0x1A60, 0x1A60), (0x1A62, 0x1A62), (0x1A65, 0x1A6C),
      (0x1A73, 0x1A7C), (0x1A7F, 0x1A7F), (0x1AA7, 0x1AA7), (0x1AB0, 0x1ACE), (0x1B00, 0x1B03), (0x1B34, 0x1B34),
      (0x1B36, 0x1B3A), (0x1B3C, 0x1B3C), (0x1B42, 0x1B42), (0x1B6B, 0x1B73), (0x1B80, 0x1B81), (0x1BA2, 0x1BA5),
      (0x1BA8, 0x1BA9), (0x1BAB, 0x1BAD), (0x1BE6, 0x1BE6), (0x1BE8, 0x1BE9), (0x1BED, 0x1BED), (0x1BEF, 0x1BF1),
      (0x1C2C, 0x1C33), (0x1C36, 0x1C37), (0x1C78, 0x1C7D), (0x1CD0, 0x1CD2), (0x1CD4, 0x1CE0), (0x1CE2, 0x1CE8),
      (0x1CED, 0x1CED), (0x1CF4, 0x1CF4), (0x1CF8, 0x1CF9), (0x1D2C, 0x1D6A), (0x1D78, 0x1D78), (0x1D9B, 0x1DFF),
      (0x1FBD, 0x1FBD), (0x1FBF, 0x1FC1), (0x1FCD, 0x1FCF), (0x1FDD, 0x1FDF), (0x1FED, 0x1FEF), (0x1FFD, 0x1FFE),
      (0x200B, 0x200F), (0x2018, 0x2019), (0x2024, 0x2024), (0x2027, 0x2027), (0x202A, 0x202E), (0x2060, 0x2064),
      (0x2066, 0x206F), (0x2071, 0x2071), (0x207F, 0x207F), (0x2090, 0x209C), (0x20D0, 0x20F0), (0x2C7C, 0x2C7D),
      (0x2CEF, 0x2CF1), (0x2D6F, 0x2D6F), (0x2D7F, 0x2D7F), (0x2DE0, 0x2DFF), (0x2E2F, 0x2E2F), (0x3005, 0x3005),
      (0x302A, 0x302D), (0x3031, 0x3035), (0x303B, 0x303B), (0x3099, 0x309E), (0x30FC, 0x30FE), (0xA015, 0xA015),
      (0xA4F8, 0xA4FD), (0xA60C, 0xA60C), (0xA66F, 0xA672), (0xA674, 0xA67D), (0xA67F, 0xA67F), (0xA69C, 0xA69F),
      (0xA6F0, 0xA6F1), (0xA700, 0xA721), (0xA770, 0xA770), (0xA788, 0xA78A), (0xA7F2, 0xA7F4), (0xA7F8, 0xA7F9),
      (0xA802, 0xA802), (0xA806, 0xA806), (0xA80B, 0xA80B), (0xA825, 0xA826), (0xA82C, 0xA82C), (0xA8C4, 0xA8C5),
      (0xA8E0, 0xA8F1), (0xA8FF, 0xA8FF), (0xA926, 0xA92D), (0xA947, 0xA951), (0xA980, 0xA982), (0xA9B3, 0xA9B3),
      (0xA9B6, 0xA9B9), (0xA9BC, 0xA9BD), (0xA9CF, 0xA9CF), (0xA9E5, 0xA9E6), (0xAA29, 0xAA2E), (0xAA31, 0xAA32),
      (0xAA35, 0xAA36), (0xAA43, 0xAA43), (0xAA4C, 0xAA4C), (0xAA70, 0xAA70), (0xAA7C, 0xAA7C), (0xAAB0, 0xAAB0),
      (0xAAB2, 0xAAB4), (0xAAB7, 0xAAB8), (0xAABE, 0xAABF), (0xAAC1, 0xAAC1), (0xAADD, 0xAADD), (0xAAEC, 0xAAED),
      (0xAAF3, 0xAAF4), (0xAAF6, 0xAAF6), (0xAB5B, 0xAB5F), (0xAB69, 0xAB6B), (0xABE5, 0xABE5), (0xABE8, 0xABE8),
      (0xABED, 0xABED), (0xFB1E, 0xFB1E), (0xFBB2, 0xFBC2), (0xFE00, 0xFE0F), (0xFE13, 0xFE13), (0xFE20, 0xFE2F),
      (0xFE52, 0xFE52), (0xFE55, 0xFE55), (0xFEFF, 0xFEFF), (0xFF07, 0xFF07), (0xFF0E, 0xFF0E), (0xFF1A, 0xFF1A),
      (0xFF3E, 0xFF3E), (0xFF40, 0xFF40), (0xFF70, 0xFF70), (0xFF9E, 0xFF9F), (0xFFE3, 0xFFE3), (0xFFF9, 0xFFFB),
      (0x101FD, 0x101FD), (0x102E0, 0x102E0), (0x10376, 0x1037A), (0x10780, 0x10785), (0x10787, 0x107B0), (0x107B2, 0x107BA),
      (0x10A01, 0x10A03), (0x10A05, 0x10A06), (0x10A0C, 0x10A0F), (0x10A38, 0x10A3A), (0x10A3F, 0x10A3F), (0x10AE5, 0x10AE6),
      (0x10D24, 0x10D27), (0x10EAB, 0x10EAC), (0x10F46, 0x10F50), (0x10F82, 0x10F85), (0x11001, 0x11001), (0x11038, 0x11046),
      (0x11070, 0x11070), (0x11073, 0x11074), (0x1107F, 0x11081), (0x110B3, 0x110B6), (0x110B9, 0x110BA), (0x110BD, 0x110BD),
      (0x110C2, 0x110C2), (0x110CD, 0x110CD), (0x11100, 0x11102), (0x11127, 0x1112B), (0x1112D, 0x11134), (0x11173, 0x11173),
      (0x11180, 0x11181), (0x111B6, 0x111BE), (0x111C9, 0x111CC), (0x111CF, 0x111CF), (0x1122F, 0x11231), (0x11234, 0x11234),
      (0x11236, 0x11237), (0x1123E, 0x1123E), (0x112DF, 0x112DF), (0x112E3, 0x112EA), (0x11300, 0x11301), (0x1133B, 0x1133C),
      (0x11340, 0x11340), (0x11366, 0x1136C), (0x11370, 0x11374), (0x11438, 0x1143F), (0x11442, 0x11444), (0x11446, 0x11446),
      (0x1145E, 0x1145E), (0x114B3, 0x114B8), (0x114BA, 0x114BA), (0x114BF, 0x114C0), (0x114C2, 0x114C3), (0x115B2, 0x115B5),
      (0x115BC, 0x115BD), (0x115BF, 0x115C0), (0x115DC, 0x115DD), (0x11633, 0x1163A), (0x1163D, 0x1163D), (0x1163F, 0x11640),
      (0x116AB, 0x116AB), (0x116AD, 0x116AD), (0x116B0, 0x116B5), (0x116B7, 0x116B7), (0x1171D, 0x1171F), (0x11722, 0x11725),
      (0x11727, 0x1172B), (0x1182F, 0x11837), (0x11839, 0x1183A), (0x1193B, 0x1193C), (0x1193E, 0x1193E), (0x11943, 0x11943),
      (0x119D4, 0x119D7), (0x119DA, 0x119DB), (0x119E0, 0x119E0), (0x11A01, 0x11A0A), (0x11A33, 0x11A38), (0x11A3B, 0x11A3E),
      (0x11A47, 0x11A47), (0x11A51, 0x11A56), (0x11A59, 0x11A5B), (0x11A8A, 0x11A96), (0x11A98, 0x11A99), (0x11C30, 0x11C36),
      (0x11C38, 0x11C3D), (0x11C3F, 0x11C3F), (0x11C92, 0x11CA7), (0x11CAA, 0x11CB0), (0x11CB2, 0x11CB3), (0x11CB5, 0x11CB6),
      (0x11D31, 0x11D36), (0x11D3A, 0x11D3A), (0x11D3C, 0x11D3D), (0x11D3F, 0x11D45), (0x11D47, 0x11D47), (0x11D90, 0x11D91),
      (0x11D95, 0x11D95), (0x11D97, 0x11D97), (0x11EF3, 0x11EF4), (0x13430, 0x13438), (0x16AF0, 0x16AF4), (0x16B30, 0x16B36),
      (0x16B40, 0x16B43), (0x16F4F, 0x16F4F), (0x16F8F, 0x16F9F), (0x16FE0, 0x16FE1), (0x16FE3, 0x16FE4), (0x1AFF0, 0x1AFF3),
      (0x1AFF5, 0x1AFFB), (0x1AFFD, 0x1AFFE), (0x1BC9D, 0x1BC9E), (0x1BCA0, 0x1BCA3), (0x1CF00, 0x1CF2D), (0x1CF30, 0x1CF46),
      (0x1D167, 0x1D169), (0x1D173, 0x1D182), (0x1D185, 0x1D18B), (0x1D1AA, 0x1D1AD), (0x1D242, 0x1D244), (0x1DA00, 0x1DA36),
      (0x1DA3B, 0x1DA6C), (0x1DA75, 0x1DA75), (0x1DA84, 0x1DA84), (0x1DA9B, 0x1DA9F), (0x1DAA1, 0x1DAAF), (0x1E000, 0x1E006),
      (0x1E008, 0x1E018), (0x1E01B, 0x1E021), (0x1E023, 0x1E024), (0x1E026, 0x1E02A), (0x1E130, 0x1E13D), (0x1E2AE, 0x1E2AE),
      (0x1E2EC, 0x1E2EF), (0x1E8D0, 0x1E8D6), (0x1E944, 0x1E94B), (0x1F3FB, 0x1F3FF), (0xE0001, 0xE0001), (0xE0020, 0xE007F),
      (0xE0100, 0xE01EF)
     ]"

definition is_case_ignorable :: "codepoint \<Rightarrow> bool" where
  "is_case_ignorable x = in_ranges case_ignorable_ranges x"

text \<open>
  The cased code points among those that are not case-ignorable. Lowering asks whether
  a code point is cased only after it has found it not to be case-ignorable.
\<close>

definition cased_ranges :: "(nat \<times> nat) list" where
  "cased_ranges =
     [
      (0x41, 0x5A), (0x61, 0x7A), (0xAA, 0xAA), (0xB5, 0xB5), (0xBA, 0xBA), (0xC0, 0xD6),
      (0xD8, 0xF6), (0xF8, 0x1BA), (0x1BC, 0x1BF), (0x1C4, 0x293), (0x295, 0x2AF), (0x370, 0x373),
      (0x376, 0x377), (0x37B, 0x37D), (0x37F, 0x37F), (0x386, 0x386), (0x388, 0x38A), (0x38C, 0x38C),
      (0x38E, 0x3A1), (0x3A3, 0x3F5), (0x3F7, 0x481), (0x48A, 0x52F), (0x531, 0x556), (0x560, 0x588),
      (0x10A0, 0x10C5), (0x10C7, 0x10C7), (0x10CD, 0x10CD), (0x10D0, 0x10FA), (0x10FD, 0x10FF), (0x13A0, 0x13F5),
      (0x13F8, 0x13FD), (0x1C80, 0x1C88), (0x1C90, 0x1CBA), (0x1CBD, 0x1CBF), (0x1D00, 0x1D2B), (0x1D6B, 0x1D77),
      (0x1D79, 0x1D9A), (0x1E00, 0x1F15), (0x1F18, 0x1F1D), (0x1F20, 0x1F45), (0x1F48, 0x1F4D), (0x1F50, 0x1F57),
      (0x1F59, 0x1F59), (0x1F5B, 0x1F5B), (0x1F5D, 0x1F5D), (0x1F5F, 0x1F7D), (0x1F80, 0x1FB4), (0x1FB6, 0x1FBC),
      (0x1FBE, 0x1FBE), (0x1FC2, 0x1FC4), (0x1FC6, 0x1FCC), (0x1FD0, 0x1FD3), (0x1FD6, 0x1FDB), (0x1FE0, 0x1FEC),
      (0x1FF2, 0x1FF4), (0x1FF6, 0x1FFC), (0x2102, 0x2102), (0x2107, 0x2107), (0x210A, 0x2113), (0x2115, 0x2115),
      (0x2119, 0x211D), (0x2124, 0x2124), (0x2126, 0x2126), (0x2128, 0x2128), (0x212A, 0x212D), (0x212F, 0x2134),
      (0x2139, 0x2139), (0x213C, 0x213F), (0x2145, 0x2149), (0x214E, 0x214E), (0x2160, 0x217F), (0x2183, 0x2184),
      (0x24B6, 0x24E9), (0x2C00, 0x2C7B), (0x2C7E, 0x2CE4), (0x2CEB, 0x2CEE), (0x2CF2, 0x2CF3), (0x2D00, 0x2D25),
      (0x2D27, 0x2D27), (0x2D2D, 0x2D2D), (0xA640, 0xA66D), (0xA680, 0xA69B), (0xA722, 0xA76F), (0xA771, 0xA787),
      (0xA78B, 0xA78E), (0xA790, 0xA7CA), (0xA7D0, 0xA7D1), (0xA7D3, 0xA7D3), (0xA7D5, 0xA7D9), (0xA7F5, 0xA7F6),
      (0xA7FA, 0xA7FA), (0xAB30, 0xAB5A), (0xAB60, 0xAB68), (0xAB70, 0xABBF), (0xFB00, 0xFB06), (0xFB13, 0xFB17),
      (0xFF21, 0xFF3A), (0xFF41, 0xFF5A), (0x10400, 0x1044F), (0x104B0, 0x104D3), (0x104D8, 0x104FB), (0x10570, 0x1057A),
      (0x1057C, 0x1058A), (0x1058C, 0x10592), (0x10594, 0x10595), (0x10597, 0x105A1), (0x105A3, 0x105B1), (0x105B3, 0x105B9),
      (0x105BB, 0x105BC), (0x10C80, 0x10CB2), (0x10CC0, 0x10CF2), (0x118A0, 0x118DF), (0x16E40, 0x16E7F), (0x1D400, 0x1D454),
      (0x1D456, 0x1D49C), (0x1D49E, 0x1D49F), (0x1D4A2, 0x1D4A2), (0x1D4A5, 0x1D4A6), (0x1D4A9, 0x1D4AC), (0x1D4AE, 0x1D4B9),
      (0x1D4BB, 0x1D4BB), (0x1D4BD, 0x1D4C3), (0x1D4C5, 0x1D505), (0x1D507, 0x1D50A), (0x1D50D, 0x1D514), (0x1D516, 0x1D51C),
      (0x1D51E, 0x1D539), (0x1D53B, 0x1D53E), (0x1D540, 0x1D544), (0x1D546, 0x1D546), (0x1D54A, 0x1D550), (0x1D552, 0x1D6A5),
      (0x1D6A8, 0x1D6C0), (0x1D6C2, 0x1D6DA), (0x1D6DC, 0x1D6FA), (0x1D6FC, 0x1D714), (0x1D716, 0x1D734), (0x1D736, 0x1D74E),
      (0x1D750, 0x1D76E), (0x1D770, 0x1D788), (0x1D78A, 0x1D7A8), (0x1D7AA, 0x1D7C2), (0x1D7C4, 0x1D7CB), (0x1DF00, 0x1DF09),
      (0x1DF0B, 0x1DF1E), (0x1E900, 0x1E943), (0x1F130, 0x1F149), (0x1F150, 0x1F169), (0x1F170, 0x1F189)
     ]"

definition is_cased :: "codepoint \<Rightarrow> bool" where
  "is_cased x = in_ranges cased_ranges x"

text \<open>
  The one rule of lowering that looks at the neighbours: a capital sigma (U+03A3) becomes
  the final sigma (U+03C2) when, skipping case-ignorable code points, a cased code point
  comes before it and none comes after it; otherwise it becomes the small sigma (U+03C3).
  \<open>before\<close> holds the code points in front of the sigma, the nearest first, and \<open>after\<close>
  those behind it.
\<close>

definition final_sigma :: "pystr \<Rightarrow> pystr \<Rightarrow> bool" where
  "final_sigma before after =
     (case dropWhile is_case_ignorable before of
        [] \<Rightarrow> False
      | c # _ \<Rightarrow>
          is_cased c \<and>
          (case dropWhile is_case_ignorable after of
             [] \<Rightarrow> True
           | d # _ \<Rightarrow> \<not> is_cased d))"

definition lower_ucs4 :: "pystr \<Rightarrow> codepoint \<Rightarrow> pystr \<Rightarrow> pystr" where
  "lower_ucs4 before c after =
     (if c = 0x3A3 then [if final_sigma before after then 0x3C2 else 0x3C3]
      else to_lower_full c)"

fun do_lower :: "pystr \<Rightarrow> pystr \<Rightarrow> pystr" where
  "do_lower before [] = []"
| "do_lower before (c # after) = lower_ucs4 before c after @ do_lower (c # before) after"

text \<open>\<^verbatim>\<open>str.lower\<close>.\<close>

definition lower :: "pystr \<Rightarrow> pystr" where
  "lower s = do_lower [] s"


subsection \<open>The callbacks\<close>

text \<open>
  \<^verbatim>\<open>on_message\<close>, lines 12 to 24. The two early returns leave the world as it is.
  \<^verbatim>\<open>'Hello {0.author.mention}'.format(message)\<close> is the text \<^verbatim>\<open>Hello\<close>, a space and
  the author's mention attribute.
\<close>

definition on_message :: "globals \<Rightarrow> message \<Rightarrow> world \<Rightarrow> world" where
  "on_message g message w =
     (if user_eq (author message) (user (discord_client g)) then w
      else
        let content = lower (content message) in
        if \<not> startswith content (str ''twangy'') then w
        else
          let msg = str ''Hello '' @ mention (author message) in
          send_message (discord_client g) (channel message) msg w)"

text \<open>\<^verbatim>\<open>on_ready\<close>, lines 27 to 29.\<close>

definition on_ready :: "globals \<Rightarrow> world \<Rightarrow> world" where
  "on_ready g w =
     print (str ''Id: '' @ user_id (user (discord_client g)))
       (print (str ''Username: '' @ name (user (discord_client g))) w)"

subsection \<open>The script's top level\<close>

text \<open>
  The top level of \<^verbatim>\<open>main.py\<close> runs statement by statement over the module's
  namespace. A name that is loaded must have been bound by an earlier statement (an
  import or an assignment); loading an unbound name raises \<^verbatim>\<open>NameError\<close> and the
  script stops there. Python's built-in names are not listed: the script loads none of
  them at the top level, and none of them is called \<^verbatim>\<open>client\<close>.
\<close>

datatype pyobj =
  Module string
  | Class string
  | Str string
  | Client_object
  | Wit_object string
  | Coroutine_function string

datatype error = NameError string

text \<open>
  \<open>events\<close> are the callbacks registered on the messaging client so far, \<open>running\<close>
  says whether the messaging client's run loop has been entered.
\<close>

record interp =
  namespace :: "(string \<times> pyobj) list"
  events :: "string list"
  running :: bool

definition load_name :: "string \<Rightarrow> interp \<Rightarrow> error + pyobj" where
  "load_name n s = (case map_of (namespace s) n of None \<Rightarrow> Inl (NameError n) | Some v \<Rightarrow> Inr v)"

definition store_name :: "string \<Rightarrow> pyobj \<Rightarrow> interp \<Rightarrow> interp" where
  "store_name n v s = s\<lparr>namespace := (n, v) # namespace s\<rparr>"

text \<open>\<^verbatim>\<open>import discord\<close> and \<^verbatim>\<open>from wit import Wit\<close>.\<close>

definition import_module :: "string \<Rightarrow> interp \<Rightarrow> error + interp" where
  "import_module n s = Inr (store_name n (Module n) s)"

definition from_import :: "string \<Rightarrow> string \<Rightarrow> interp \<Rightarrow> error + interp" where
  "from_import m n s = Inr (store_name n (Class n) s)"

text \<open>\<^verbatim>\<open>NAME = 'literal'\<close>.\<close>

definition assign_str :: "string \<Rightarrow> string \<Rightarrow> interp \<Rightarrow> error + interp" where
  "assign_str n lit s = Inr (store_name n (Str lit) s)"

text \<open>\<^verbatim>\<open>discord_client = discord.Client()\<close>: the module name is loaded first.\<close>

definition assign_discord_client :: "interp \<Rightarrow> error + interp" where
  "assign_discord_client s =
     (case load_name ''discord'' s of
        Inl e \<Rightarrow> Inl e
      | Inr _ \<Rightarrow> Inr (store_name ''discord_client'' Client_object s))"

text \<open>\<^verbatim>\<open>wit_client = Wit(WIT_TOKEN)\<close>: the class and the token are loaded first.\<close>

definition assign_wit_client :: "interp \<Rightarrow> error + interp" where
  "assign_wit_client s =
     (case load_name ''Wit'' s of
        Inl e \<Rightarrow> Inl e
      | Inr _ \<Rightarrow>
          (case load_name ''WIT_TOKEN'' s of
             Inl e \<Rightarrow> Inl e
           | Inr (Str t) \<Rightarrow> Inr (store_name ''wit_client'' (Wit_object t) s)
           | Inr _ \<Rightarrow> Inr (store_name ''wit_client'' (Wit_object []) s)))"

text \<open>
  \<^verbatim>\<open>@r.event\<close> above \<^verbatim>\<open>async def f\<close>: the decorator expression loads the
  name \<open>r\<close>; only then is the function registered as an event callback and bound to
  its name. The script writes \<^verbatim>\<open>client\<close> for \<open>r\<close>.
\<close>

definition event_def :: "string \<Rightarrow> string \<Rightarrow> interp \<Rightarrow> error + interp" where
  "event_def r f s =
     (case load_name r s of
        Inl e \<Rightarrow> Inl e
      | Inr _ \<Rightarrow> Inr (store_name f (Coroutine_function f) (s\<lparr>events := events s @ [f]\<rparr>)))"

text \<open>\<^verbatim>\<open>discord_client.run(DISCORD_TOKEN)\<close>.\<close>

definition run_discord_client :: "interp \<Rightarrow> error + interp" where
  "run_discord_client s =
     (case load_name ''discord_client'' s of
        Inl e \<Rightarrow> Inl e
      | Inr _ \<Rightarrow>
          (case load_name ''DISCORD_TOKEN'' s of
             Inl e \<Rightarrow> Inl e
           | Inr _ \<Rightarrow> Inr (s\<lparr>running := True\<rparr>)))"

text \<open>Statements in sequence: the first error ends the run.\<close>

fun exec :: "(interp \<Rightarrow> error + interp) list \<Rightarrow> interp \<Rightarrow> error + interp" where
  "exec [] s = Inr s"
| "exec (st # sts) s = (case st s of Inl e \<Rightarrow> Inl e | Inr s' \<Rightarrow> exec sts s')"

definition fresh_interp :: interp where
  "fresh_interp = \<lparr>namespace = [], events = [], running = False\<rparr>"

text \<open>Lines 1 to 9 of the script: imports, credentials, the two clients.\<close>

definition construct_clients :: "(interp \<Rightarrow> error + interp) list" where
  "construct_clients =
     [import_module ''discord'',
      from_import ''wit'' ''Wit'',
      assign_str ''DISCORD_TOKEN'' ''xxx'',
      assign_str ''WIT_TOKEN'' ''xxx'',
      assign_discord_client,
      assign_wit_client]"

text \<open>
  Lines 11 to 31: the two decorated definitions and the run call, with the name \<open>r\<close>
  in the decorators.
\<close>

definition register_and_run :: "string \<Rightarrow> (interp \<Rightarrow> error + interp) list" where
  "register_and_run r =
     [event_def r ''on_message'',
      event_def r ''on_ready'',
      run_discord_client]"

text \<open>The whole script, whose decorators name \<^verbatim>\<open>client\<close>.\<close>

definition main_py :: "(interp \<Rightarrow> error + interp) list" where
  "main_py = construct_clients @ register_and_run ''client''"

subsection \<open>Changing the letter case of a text\<close>



subsection \<open>Notions used in the proofs\<close>

text \<open>Lowering of the letters A to Z alone.\<close>

definition ascii_lower :: "codepoint \<Rightarrow> codepoint" where
  "ascii_lower x = (if 0x41 \<le> x \<and> x \<le> 0x5A then x + 0x20 else x)"


definition twangy_letter :: "codepoint \<Rightarrow> bool" where
  "twangy_letter x = (ascii_lower x \<in> set [0x74, 0x77, 0x61, 0x6E, 0x67, 0x79])"

text \<open>
  A run is harmless when it lies within ASCII or maps no code point to a letter of the
  trigger word, in either case.
\<close>

definition harmless_run :: "nat \<times> nat \<times> nat \<times> nat \<Rightarrow> bool" where
  "harmless_run r =
     (case r of (lo, hi, step, target) \<Rightarrow>
        hi < 0x80 \<or> target + (hi - lo) < 0x41 \<or> 0x7A < target
        \<or> (lo = hi \<and> \<not> twangy_letter target))"



subsection \<open>Scenarios\<close>

definition twangy_user :: user where
  "twangy_user = \<lparr>user_id = str ''42'', name = str ''Twangy'', mention = str ''<@42>''\<rparr>"

definition alice :: user where
  "alice = \<lparr>user_id = str ''7'', name = str ''alice'', mention = str ''@alice''\<rparr>"

definition script_globals :: globals where
  "script_globals = \<lparr>discord_client = \<lparr>user = twangy_user\<rparr>, wit_client = Some (Wit ''xxx'')\<rparr>"

definition quiet_world :: world where
  "quiet_world = \<lparr>outbox = [], stdout = [], wit_requests = []\<rparr>"

section \<open>Letter case and the trigger test\<close>

subsection \<open>Prefix tests\<close>

lemma startswith_Nil: "startswith s [] = True"
  by (simp add: startswith_def)

lemma startswith_Nil_Cons: "startswith [] (t # p) = False"
  by (simp add: startswith_def)

lemma startswith_Cons: "startswith (a # s) (t # p) = (a = t \<and> startswith s p)"
  by (simp add: startswith_def)

lemma startswith_append_hd: "v \<noteq> [] \<Longrightarrow> hd v \<noteq> t \<Longrightarrow> \<not> startswith (v @ s) (t # p)"
  by (cases v) (simp_all add: startswith_Cons)


subsection \<open>Reading the case tables\<close>

lemma find_run_Some:
  "find_run rs x = Some y \<Longrightarrow> list_all P rs \<Longrightarrow>
   \<exists>lo hi step target. P (lo, hi, step, target) \<and> lo \<le> x \<and> x \<le> hi \<and> y = target + (x - lo)"
proof (induction rs)
  case Nil
  then show ?case by simp
next
  case (Cons r rs)
  obtain lo hi step target where r: "r = (lo, hi, step, target)"
    by (cases r) auto
  show ?case
  proof (cases "lo \<le> x \<and> x \<le> hi \<and> (x - lo) mod step = 0")
    case True
    with Cons.prems r have "P (lo, hi, step, target)" and "y = target + (x - lo)"
      by auto
    with True show ?thesis by blast
  next
    case False
    with Cons.prems r have "find_run rs x = Some y" and "list_all P rs" by auto
    then show ?thesis by (rule Cons.IH)
  qed
qed

lemma find_run_None_below: "list_all (\<lambda>r. b \<le> fst r) rs \<Longrightarrow> x < b \<Longrightarrow> find_run rs x = None"
  by (induction rs) auto


lemma lower_runs_harmless: "list_all harmless_run lower_runs"
  by (simp add: lower_runs_def harmless_run_def twangy_letter_def ascii_lower_def)



lemma lower_runs_split:
  "lower_runs = (0x41, 0x5A, 1, 0x61) # tl lower_runs"
  "list_all (\<lambda>r. 0x80 \<le> fst r) (tl lower_runs)"
  by (simp_all add: lower_runs_def)


subsection \<open>Case mappings within and outside ASCII\<close>

lemma to_lower_full_ascii: "x < 0x80 \<Longrightarrow> to_lower_full x = [ascii_lower x]"
proof -
  assume x: "x < 0x80"
  have "find_run (tl lower_runs) x = None"
    using lower_runs_split(2) x by (rule find_run_None_below)
  then have "find_run lower_runs x = (if 0x41 \<le> x \<and> x \<le> 0x5A then Some (0x61 + (x - 0x41)) else None)"
    by (subst lower_runs_split(1)) simp
  with x show ?thesis
    by (auto simp add: to_lower_full_def ascii_lower_def)
qed



lemma not_twangy_letter_above: "0x80 \<le> x \<Longrightarrow> \<not> twangy_letter x"
  by (auto simp add: twangy_letter_def ascii_lower_def)

lemma harmless_run_target:
  assumes "harmless_run (lo, hi, step, target)" and "lo \<le> x" and "x \<le> hi" and "0x80 \<le> x"
  shows "\<not> twangy_letter (target + (x - lo))"
proof -
  from assms consider "target + (hi - lo) < 0x41" | "0x7A < target" | "lo = hi" "\<not> twangy_letter target"
    by (auto simp add: harmless_run_def)
  then show ?thesis
  proof cases
    case 1
    with assms have "target + (x - lo) < 0x41" by simp
    then show ?thesis by (auto simp add: twangy_letter_def ascii_lower_def)
  next
    case 2
    then have "0x7A < target + (x - lo)" by simp
    then show ?thesis by (auto simp add: twangy_letter_def ascii_lower_def)
  next
    case 3
    with assms show ?thesis by simp
  qed
qed

lemma find_run_harmless:
  assumes "list_all harmless_run rs" and "find_run rs x = Some y" and "0x80 \<le> x"
  shows "\<not> twangy_letter y"
proof -
  from find_run_Some [OF assms(2) assms(1)]
  obtain lo hi step target
    where run: "harmless_run (lo, hi, step, target)" "lo \<le> x" "x \<le> hi"
      and y: "y = target + (x - lo)"
    by blast
  from run assms(3) have "\<not> twangy_letter (target + (x - lo))"
    by (rule harmless_run_target)
  with y show ?thesis
    by blast
qed

lemma not_twangy_letter_i: "\<not> twangy_letter 0x69"
  by (simp add: twangy_letter_def ascii_lower_def)

lemma to_lower_full_above:
  assumes "0x80 \<le> x"
  shows "to_lower_full x \<noteq> [] \<and> \<not> twangy_letter (hd (to_lower_full x))"
proof (cases "x = 0x130")
  case True
  then show ?thesis
    by (simp add: to_lower_full_def not_twangy_letter_i)
next
  case False
  show ?thesis
  proof (cases "find_run lower_runs x")
    case None
    with False assms show ?thesis
      by (simp add: to_lower_full_def not_twangy_letter_above)
  next
    case (Some y)
    with assms have "\<not> twangy_letter y"
      using find_run_harmless [OF lower_runs_harmless] by blast
    with Some False show ?thesis
      by (simp add: to_lower_full_def)
  qed
qed





subsection \<open>Lowering and the trigger word\<close>

lemma ascii_lower_above: "0x80 \<le> x \<Longrightarrow> ascii_lower x = x"
  by (simp add: ascii_lower_def)

lemma twangy_letter_lower: "ascii_lower a \<in> set (str ''twangy'') \<Longrightarrow> twangy_letter a"
  by (simp add: twangy_letter_def str_def)

lemma str_twangy_below: "t \<in> set (str ''twangy'') \<Longrightarrow> t < 0x80"
  by (auto simp add: str_def)

lemma lower_ucs4_ascii: "c < 0x80 \<Longrightarrow> lower_ucs4 before c after = [ascii_lower c]"
  by (simp add: lower_ucs4_def to_lower_full_ascii)

lemma lower_ucs4_above:
  assumes "0x80 \<le> c"
  shows "lower_ucs4 before c after \<noteq> [] \<and> \<not> twangy_letter (hd (lower_ucs4 before c after))"
proof (cases "c = 0x3A3")
  case True
  then show ?thesis
    by (simp add: lower_ucs4_def not_twangy_letter_above)
next
  case False
  with to_lower_full_above [OF assms] show ?thesis
    by (simp add: lower_ucs4_def)
qed

text \<open>The trigger test sees the first six code points through ASCII lowering alone.\<close>

lemma do_lower_prefix:
  "set p \<subseteq> set (str ''twangy'') \<Longrightarrow>
   startswith (do_lower before s) p = startswith (map ascii_lower s) p"
proof (induction s arbitrary: before p)
  case Nil
  then show ?case by simp
next
  case (Cons c s)
  show ?case
  proof (cases p)
    case Nil
    then show ?thesis by (simp add: startswith_Nil)
  next
    case (Cons t ts)
    with Cons.prems have t: "t \<in> set (str ''twangy'')" and ts: "set ts \<subseteq> set (str ''twangy'')"
      by simp_all
    show ?thesis
    proof (cases "c < 0x80")
      case True
      then show ?thesis
        using Cons.IH [OF ts] \<open>p = t # ts\<close>
        by (simp add: lower_ucs4_ascii startswith_Cons)
    next
      case False
      then have above: "0x80 \<le> c" by simp
      have "twangy_letter t"
        using t by (auto simp add: twangy_letter_def str_def ascii_lower_def)
      with lower_ucs4_above [OF above, of before s]
      have "lower_ucs4 before c s \<noteq> []" and "hd (lower_ucs4 before c s) \<noteq> t"
        by auto
      then have "\<not> startswith (lower_ucs4 before c s @ do_lower (c # before) s) (t # ts)"
        by (rule startswith_append_hd)
      moreover have "ascii_lower c \<noteq> t"
        using above str_twangy_below [OF t] by (simp add: ascii_lower_above)
      ultimately show ?thesis
        using \<open>p = t # ts\<close> by (simp add: startswith_Cons)
    qed
  qed
qed

lemma trigger_iff:
  "startswith (lower s) (str ''twangy'') = startswith (map ascii_lower s) (str ''twangy'')"
  unfolding lower_def by (rule do_lower_prefix) simp

subsection \<open>Changes of letter case and the trigger word\<close>








subsection \<open>Lowering and raising are changes of letter case\<close>







subsection \<open>Lowering of ASCII texts\<close>

lemma do_lower_ascii: "list_all (\<lambda>x. x < 0x80) s \<Longrightarrow> do_lower before s = map ascii_lower s"
  by (induction s arbitrary: before) (simp_all add: lower_ucs4_ascii)

lemma lower_ascii: "list_all (\<lambda>x. x < 0x80) s \<Longrightarrow> lower s = map ascii_lower s"
  unfolding lower_def by (rule do_lower_ascii)

lemma trigger_twangy_ping: "startswith (lower (str ''twangy ping'')) (str ''twangy'')"
  unfolding trigger_iff by (simp add: str_def ascii_lower_def startswith_def)



lemma no_trigger_hi_twangy: "\<not> startswith (lower (str ''hi twangy'')) (str ''twangy'')"
  unfolding trigger_iff by (simp add: str_def ascii_lower_def startswith_def)

lemma lower_twangyfoo: "lower (str ''twangyfoo'') = str ''twangy'' @ str ''foo''"
  by (simp add: lower_ascii str_def ascii_lower_def)





lemma alice_is_not_the_bot: "\<not> user_eq alice (user (discord_client script_globals))"
  by (simp add: user_eq_def alice_def script_globals_def twangy_user_def str_def)



section \<open>Properties of the message callback\<close>

text \<open>
  C2. A message whose author is the bot's own identity is ignored: the callback returns
  the world unchanged, so nothing is sent, whatever the content is.
\<close>

theorem on_message_own_message_ignored:
  "user_eq (author m) (user (discord_client g)) \<Longrightarrow> on_message g m w = w"
  by (simp add: on_message_def)

theorem on_message_own_message_ignored_witness:
  "user_eq (author \<lparr>author = twangy_user, content = str ''twangy test'', channel = Channel ''general''\<rparr>)
      (user (discord_client script_globals))
   \<and> on_message script_globals
        \<lparr>author = twangy_user, content = str ''twangy test'', channel = Channel ''general''\<rparr>
        quiet_world
      = quiet_world"
  using on_message_own_message_ignored
    [of "\<lparr>author = twangy_user, content = str ''twangy test'', channel = Channel ''general''\<rparr>"
        script_globals quiet_world]
  by (simp add: user_eq_def script_globals_def)

text \<open>
  C1. A message whose lowered text starts with the trigger and whose author is not the
  bot gets exactly one reply: the outbox grows by one entry, addressed to the channel the
  message came from, with the text \<^verbatim>\<open>Hello\<close>, a space and the author's mention token.
  Nothing else in the world changes.
\<close>

theorem on_message_greets:
  "startswith (lower (content m)) (str ''twangy'') \<Longrightarrow>
   \<not> user_eq (author m) (user (discord_client g)) \<Longrightarrow>
   on_message g m w = w\<lparr>outbox := outbox w @ [(channel m, str ''Hello '' @ mention (author m))]\<rparr>"
  by (simp add: on_message_def send_message_def)

theorem on_message_greets_witness:
  "startswith (lower (content \<lparr>author = alice, content = str ''twangy ping'', channel = Channel ''general''\<rparr>))
      (str ''twangy'')
   \<and> \<not> user_eq (author \<lparr>author = alice, content = str ''twangy ping'', channel = Channel ''general''\<rparr>)
          (user (discord_client script_globals))
   \<and> on_message script_globals
        \<lparr>author = alice, content = str ''twangy ping'', channel = Channel ''general''\<rparr> quiet_world
      = \<lparr>outbox = [(Channel ''general'', str ''Hello @alice'')], stdout = [], wit_requests = []\<rparr>"
proof -
  let ?m = "\<lparr>author = alice, content = str ''twangy ping'', channel = Channel ''general''\<rparr>"
  have trigger: "startswith (lower (content ?m)) (str ''twangy'')"
    by (simp add: trigger_twangy_ping)
  have other: "\<not> user_eq (author ?m) (user (discord_client script_globals))"
    by (simp add: alice_is_not_the_bot)
  from on_message_greets [OF trigger other, of quiet_world] trigger other
  show ?thesis
    by (simp add: quiet_world_def alice_def str_def)
qed

text \<open>
  C3. A message whose lowered text does not start with the trigger causes no send,
  whoever wrote it: the callback returns the world unchanged.
\<close>

theorem on_message_no_trigger_no_send:
  "\<not> startswith (lower (content m)) (str ''twangy'') \<Longrightarrow>
   on_message g m w = w \<and> outbox (on_message g m w) = outbox w"
  by (simp add: on_message_def)

theorem on_message_no_trigger_no_send_witness:
  "\<not> startswith (lower (content \<lparr>author = alice, content = str ''hi twangy'', channel = Channel ''general''\<rparr>))
        (str ''twangy'')
   \<and> on_message script_globals
        \<lparr>author = alice, content = str ''hi twangy'', channel = Channel ''general''\<rparr> quiet_world
      = quiet_world
   \<and> outbox (on_message script_globals
        \<lparr>author = alice, content = str ''hi twangy'', channel = Channel ''general''\<rparr> quiet_world)
      = []"
  using on_message_no_trigger_no_send
    [of "\<lparr>author = alice, content = str ''hi twangy'', channel = Channel ''general''\<rparr>"
        script_globals quiet_world]
  by (simp add: no_trigger_hi_twangy quiet_world_def)




text \<open>
  C9. The trigger check is a bare prefix test. Whatever follows the six letters of the
  trigger in the lowered content, also more letters of the same word as in
  \<^verbatim>\<open>twangyfoo\<close>, a message not written by the bot is answered with the greeting.
\<close>

theorem on_message_bare_prefix:
  "\<not> user_eq (author m) (user (discord_client g)) \<Longrightarrow>
   lower (content m) = str ''twangy'' @ rest \<Longrightarrow>
   on_message g m w = w\<lparr>outbox := outbox w @ [(channel m, str ''Hello '' @ mention (author m))]\<rparr>"
  by (simp add: on_message_def send_message_def startswith_def)

theorem on_message_bare_prefix_witness:
  "\<not> user_eq (author \<lparr>author = alice, content = str ''twangyfoo'', channel = Channel ''general''\<rparr>)
        (user (discord_client script_globals))
   \<and> lower (content \<lparr>author = alice, content = str ''twangyfoo'', channel = Channel ''general''\<rparr>)
      = str ''twangy'' @ str ''foo''
   \<and> on_message script_globals
        \<lparr>author = alice, content = str ''twangyfoo'', channel = Channel ''general''\<rparr> quiet_world
      = \<lparr>outbox = [(Channel ''general'', str ''Hello @alice'')], stdout = [], wit_requests = []\<rparr>"
proof -
  let ?m = "\<lparr>author = alice, content = str ''twangyfoo'', channel = Channel ''general''\<rparr>"
  have other: "\<not> user_eq (author ?m) (user (discord_client script_globals))"
    by (simp add: alice_is_not_the_bot)
  have low: "lower (content ?m) = str ''twangy'' @ str ''foo''"
    by (simp add: lower_twangyfoo)
  from on_message_bare_prefix [OF other low, of quiet_world] other low
  show ?thesis
    by (simp add: quiet_world_def alice_def str_def)
qed

text \<open>
  C10. One run of the callback sends at most once: the outbox after the run is the outbox
  before it followed by no entry or by one entry, and nothing else in the world changes.
\<close>

theorem on_message_at_most_one_send:
  "\<exists>new. on_message g m w = w\<lparr>outbox := outbox w @ new\<rparr> \<and> length new \<le> 1"
proof (cases "user_eq (author m) (user (discord_client g)) \<or> \<not> startswith (lower (content m)) (str ''twangy'')")
  case True
  then have "on_message g m w = w\<lparr>outbox := outbox w @ []\<rparr>"
    by (auto simp add: on_message_def)
  then show ?thesis
    by (intro exI [of _ "[]"]) simp
next
  case False
  then have "on_message g m w = w\<lparr>outbox := outbox w @ [(channel m, str ''Hello '' @ mention (author m))]\<rparr>"
    by (simp add: on_message_def send_message_def)
  then show ?thesis
    by (intro exI [of _ "[(channel m, str ''Hello '' @ mention (author m))]"]) simp
qed

text \<open>
  C8. The callback keeps no memory. What it sends is a function of the bot's identifier
  and of the message alone: there is one function \<open>reply\<close> such that every run appends
  \<open>reply\<close> of these two to the outbox and changes nothing else, whatever the world
  already holds. So two runs on the same message under the same bot identity send the
  same, from whatever worlds they start and whatever else the module-level variables hold.
\<close>

theorem on_message_stateless:
  "(\<exists>reply. \<forall>g m w.
      on_message g m w = w\<lparr>outbox := outbox w @ reply (user_id (user (discord_client g))) m\<rparr>)
   \<and> (\<forall>g1 g2 m w1 w2. user_eq (user (discord_client g1)) (user (discord_client g2)) \<longrightarrow>
        (\<exists>sent. on_message g1 m w1 = w1\<lparr>outbox := outbox w1 @ sent\<rparr>
               \<and> on_message g2 m w2 = w2\<lparr>outbox := outbox w2 @ sent\<rparr>))"
proof -
  let ?reply = "\<lambda>bot m.
      if user_id (author m) = bot then []
      else if startswith (lower (content m)) (str ''twangy'')
        then [(channel m, str ''Hello '' @ mention (author m))]
        else []"
  have run: "on_message g m w = w\<lparr>outbox := outbox w @ ?reply (user_id (user (discord_client g))) m\<rparr>"
    for g m w
    by (simp add: on_message_def send_message_def user_eq_def)
  have first: "\<exists>reply. \<forall>g m w.
      on_message g m w = w\<lparr>outbox := outbox w @ reply (user_id (user (discord_client g))) m\<rparr>"
    using run by (intro exI [of _ ?reply]) blast
  have second: "\<exists>sent. on_message g1 m w1 = w1\<lparr>outbox := outbox w1 @ sent\<rparr>
               \<and> on_message g2 m w2 = w2\<lparr>outbox := outbox w2 @ sent\<rparr>"
    if "user_eq (user (discord_client g1)) (user (discord_client g2))" for g1 g2 m w1 w2
  proof -
    from that have same: "user_id (user (discord_client g1)) = user_id (user (discord_client g2))"
      by (simp add: user_eq_def)
    show ?thesis
    proof (intro exI conjI)
      show "on_message g1 m w1
            = w1\<lparr>outbox := outbox w1 @ ?reply (user_id (user (discord_client g2))) m\<rparr>"
        using run [of g1 m w1] same by simp
      show "on_message g2 m w2
            = w2\<lparr>outbox := outbox w2 @ ?reply (user_id (user (discord_client g2))) m\<rparr>"
        by (rule run)
    qed
  qed
  from first second show ?thesis
    by blast
qed

theorem on_message_stateless_witness:
  "user_eq (user (discord_client script_globals))
      (user (discord_client
         \<lparr>discord_client = \<lparr>user = \<lparr>user_id = str ''42'', name = str ''Renamed'', mention = str ''<@!42>''\<rparr>\<rparr>,
          wit_client = None\<rparr>))
   \<and> (\<exists>sent.
        on_message script_globals
          \<lparr>author = alice, content = str ''twangy ping'', channel = Channel ''general''\<rparr> quiet_world
        = quiet_world\<lparr>outbox := outbox quiet_world @ sent\<rparr>
      \<and> on_message
          \<lparr>discord_client = \<lparr>user = \<lparr>user_id = str ''42'', name = str ''Renamed'', mention = str ''<@!42>''\<rparr>\<rparr>,
           wit_client = None\<rparr>
          \<lparr>author = alice, content = str ''twangy ping'', channel = Channel ''general''\<rparr>
          \<lparr>outbox = [(Channel ''lobby'', str ''Hello @bob'')], stdout = str ''Username: Twangy'',
           wit_requests = []\<rparr>
        = \<lparr>outbox = [(Channel ''lobby'', str ''Hello @bob'')], stdout = str ''Username: Twangy'',
           wit_requests = []\<rparr>
          \<lparr>outbox := outbox \<lparr>outbox = [(Channel ''lobby'', str ''Hello @bob'')],
                               stdout = str ''Username: Twangy'', wit_requests = []\<rparr> @ sent\<rparr>)"
proof -
  let ?g2 = "\<lparr>discord_client = \<lparr>user = \<lparr>user_id = str ''42'', name = str ''Renamed'', mention = str ''<@!42>''\<rparr>\<rparr>,
           wit_client = None\<rparr>"
  have same: "user_eq (user (discord_client script_globals)) (user (discord_client ?g2))"
    by (simp add: user_eq_def script_globals_def twangy_user_def)
  have two_runs: "\<And>g1 g2 m w1 w2. user_eq (user (discord_client g1)) (user (discord_client g2)) \<Longrightarrow>
        (\<exists>sent. on_message g1 m w1 = w1\<lparr>outbox := outbox w1 @ sent\<rparr>
               \<and> on_message g2 m w2 = w2\<lparr>outbox := outbox w2 @ sent\<rparr>)"
    using on_message_stateless by blast
  from two_runs [OF same] same show ?thesis
    by blast
qed

section \<open>Properties of the ready callback\<close>

text \<open>
  C5. Each run of the ready callback writes two lines to standard output, where a line is
  the text of one \<^verbatim>\<open>print\<close> call followed by a line feed: first the line
  \<^verbatim>\<open>Username:\<close> with the bot's display name, then the line \<^verbatim>\<open>Id:\<close> with the
  bot's identifier. The outbox and the requests to the language-understanding service
  stay as they were.
\<close>

theorem on_ready_prints_name_then_id:
  "on_ready g w =
     w\<lparr>stdout := stdout w
          @ (str ''Username: '' @ name (user (discord_client g))) @ [0x0A]
          @ (str ''Id: '' @ user_id (user (discord_client g))) @ [0x0A]\<rparr>"
  by (simp add: on_ready_def print_def)

section \<open>The language-understanding client\<close>

text \<open>
  C7. No callback uses the language-understanding client. Replacing the module-level
  variable \<open>wit_client\<close> by anything, also by nothing at all, changes the result of
  neither callback, and no callback adds a request to that service.
\<close>

theorem wit_client_never_used:
  "on_message (g\<lparr>wit_client := x\<rparr>) m w = on_message g m w
   \<and> on_ready (g\<lparr>wit_client := x\<rparr>) w = on_ready g w
   \<and> wit_requests (on_message g m w) = wit_requests w
   \<and> wit_requests (on_ready g w) = wit_requests w"
  by (simp add: on_message_def on_ready_def send_message_def print_def Let_def)

section \<open>Start of the script\<close>

lemmas script_defs =
  main_py_def register_and_run_def construct_clients_def fresh_interp_def import_module_def
  from_import_def assign_str_def assign_discord_client_def assign_wit_client_def event_def_def
  run_discord_client_def load_name_def store_name_def

text \<open>
  Had the decorators named the variable that holds the messaging client, both callbacks
  would be registered and the run loop entered.
\<close>

lemma register_and_run_with_bound_name:
  "\<exists>s. exec (construct_clients @ register_and_run ''discord_client'') fresh_interp = Inr s
       \<and> events s = [''on_message'', ''on_ready''] \<and> running s"
  by (simp add: script_defs)

text \<open>
  C6. The start of the script does not get past the first decorator. Lines 1 to 9 run
  without a fault and leave both clients bound, with no callback registered and the run
  loop not entered; \<^verbatim>\<open>client\<close> is not among the bound names. The decorator on line
  11 then loads \<^verbatim>\<open>client\<close> and the script stops with \<^verbatim>\<open>NameError\<close>: no callback is
  ever registered and the run loop is never entered.
\<close>

theorem main_py_stops_at_first_decorator:
  "exec main_py fresh_interp = Inl (NameError ''client'')
   \<and> (\<exists>s. exec construct_clients fresh_interp = Inr s
          \<and> map_of (namespace s) ''discord_client'' = Some Client_object
          \<and> map_of (namespace s) ''wit_client'' = Some (Wit_object ''xxx'')
          \<and> map_of (namespace s) ''client'' = None
          \<and> events s = [] \<and> \<not> running s)"
  by (simp add: script_defs)

end
